theory Spec2Isabelle
  imports
    Main
    "HOL-Library.Sublist"
    "HOL-Library.Multiset"
    "HOL-Library.Char_ord"
    "HOL-Library.List_Lexorder"
    "HOL-Library.Product_Lexorder"
begin

section \<open>Port Inspector: the refresh, filter and kill pipeline of main.py\<close>

text \<open>
  The program is a single widget class whose methods read the socket table of the
  operating system, build a sorted list of rows, filter it by a search text, and kill the
  process owning a row. The embedding keeps the methods' names and their control flow.
  Every call into the operating system (psutil, os.kill, taskkill) is an input of the
  model: an environment record gives the outcome of each call, either a value or a raised
  exception, so a theorem quantified over environments covers every behaviour of the OS.

  Python strings are modelled as \<open>string\<close> restricted to ASCII: characters outside ASCII
  are neither whitespace nor digits and are left alone by \<open>lower\<close>.
\<close>

subsection \<open>Python string builtins\<close>

definition digit_chars :: string where
  "digit_chars = ''0123456789''"

definition is_digit_char :: "char \<Rightarrow> bool" where
  "is_digit_char c = (c \<in> set digit_chars)"

text \<open>\<open>str.isdigit\<close>: false on the empty string.\<close>

definition py_isdigit :: "string \<Rightarrow> bool" where
  "py_isdigit s = (s \<noteq> [] \<and> list_all is_digit_char s)"

text \<open>The ASCII characters for which \<open>str.isspace\<close> holds: codes 9 to 13, 28 to 31, 32.\<close>

definition space_chars :: string where
  "space_chars = [CHR 0x09, CHR 0x0A, CHR 0x0B, CHR 0x0C, CHR 0x0D,
                  CHR 0x1C, CHR 0x1D, CHR 0x1E, CHR 0x1F, CHR 0x20]"

definition py_isspace :: "char \<Rightarrow> bool" where
  "py_isspace c = (c \<in> set space_chars)"

definition strip :: "string \<Rightarrow> string" where
  "strip s = rev (dropWhile py_isspace (rev (dropWhile py_isspace s)))"

definition lower_char :: "char \<Rightarrow> char" where
  "lower_char c =
     (case map_of (zip ''ABCDEFGHIJKLMNOPQRSTUVWXYZ'' ''abcdefghijklmnopqrstuvwxyz'') c of
        None \<Rightarrow> c
      | Some d \<Rightarrow> d)"

definition lower :: "string \<Rightarrow> string" where
  "lower s = map lower_char s"

text \<open>\<open>q in s\<close> on strings: \<open>q\<close> occurs as a contiguous substring of \<open>s\<close>.\<close>

fun py_in :: "string \<Rightarrow> string \<Rightarrow> bool" where
  "py_in q [] = (q = [])"
| "py_in q (c # s) = (prefix q (c # s) \<or> py_in q s)"

text \<open>\<open>str(n)\<close> for an integer: decimal digits, a minus sign for negatives.\<close>

fun str_nat :: "nat \<Rightarrow> string" where
  "str_nat n =
     (if n < 10 then [digit_chars ! n]
      else str_nat (n div 10) @ [digit_chars ! (n mod 10)])"

declare str_nat.simps [simp del]

definition str_int :: "int \<Rightarrow> string" where
  "str_int i = (if i < 0 then CHR ''-'' # str_nat (nat (- i)) else str_nat (nat i))"

text \<open>
  \<open>int(s)\<close> on a string, base 10: surrounding whitespace is stripped, one sign is
  allowed, then digits, with single underscores allowed between digits. \<open>None\<close> stands
  for the \<open>ValueError\<close> that \<open>int\<close> raises on anything else.
\<close>

definition digit_val :: "char \<Rightarrow> nat" where
  "digit_val c = length (takeWhile (\<lambda>d. d \<noteq> c) digit_chars)"

fun parse_digits :: "bool \<Rightarrow> nat \<Rightarrow> string \<Rightarrow> nat option" where
  "parse_digits prev acc [] = (if prev then Some acc else None)"
| "parse_digits prev acc (c # cs) =
     (if is_digit_char c then parse_digits True (10 * acc + digit_val c) cs
      else if c = CHR ''_'' \<and> prev then parse_digits False acc cs
      else None)"

definition py_int :: "string \<Rightarrow> int option" where
  "py_int s =
     (case strip s of
        [] \<Rightarrow> None
      | c # u \<Rightarrow>
          if c = CHR ''-'' then map_option (\<lambda>n. - int n) (parse_digits False 0 u)
          else if c = CHR ''+'' then map_option int (parse_digits False 0 u)
          else map_option int (parse_digits False 0 (c # u)))"

text \<open>\<open>s.rsplit(":", 1)[1]\<close>, used only when \<open>":" in s\<close>: the text after the last colon.\<close>

definition after_last_colon :: "string \<Rightarrow> string" where
  "after_last_colon s = rev (takeWhile (\<lambda>c. c \<noteq> CHR '':'') (rev s))"

subsection \<open>Exceptions\<close>

text \<open>
  An exception value is an instance of Python's class \<open>Exception\<close>: its class, as far as
  the \<open>except\<close> clauses of the program tell classes apart, and its text \<open>str(e)\<close>.
  \<open>NoSuchProcess\<close>, \<open>TimeoutExpired\<close> and \<open>AccessDenied\<close> are psutil's;
  \<open>ProcessLookupError\<close> and \<open>PermissionError\<close> are the builtin \<open>OSError\<close> subclasses.
\<close>

datatype exc_class =
    NoSuchProcess
  | ProcessLookupError
  | TimeoutExpired
  | AccessDenied
  | PermissionError
  | OtherException

datatype exc = Exc exc_class string

fun exc_cls :: "exc \<Rightarrow> exc_class" where
  "exc_cls (Exc k m) = k"

fun exc_str :: "exc \<Rightarrow> string" where
  "exc_str (Exc k m) = m"

subsection \<open>Raw connections and rows\<close>

datatype sock_type = SOCK_STREAM | SOCK_DGRAM | SOCK_OTHER int

type_synonym addr = "string \<times> int"

text \<open>
  One entry of \<open>psutil.net_connections\<close>. \<open>c_laddr\<close> and \<open>c_raddr\<close> are \<open>None\<close> for
  the empty tuple psutil gives for an absent address; \<open>c_status\<close> is \<open>None\<close> when the
  entry has no attribute \<open>status\<close>.
\<close>

record conn =
  c_pid :: "int option"
  c_type :: sock_type
  c_laddr :: "addr option"
  c_raddr :: "addr option"
  c_status :: "string option"

text \<open>A row is the tuple \<open>(proto, laddr, raddr, status, pid, pname)\<close> of the source.\<close>

type_synonym row = "string \<times> string \<times> string \<times> string \<times> int \<times> string"

subsection \<open>The operating system as an environment\<close>

datatype os_action =
    NetConnections
  | ProcessHandle int
  | ProcName int
  | Terminate int
  | Wait int nat
  | Kill int
  | Taskkill int
  | OsKill int

text \<open>
  What the OS answers during one \<open>refresh\<close>. The lookups of process names are indexed
  by the position of the entry in the enumeration, so that two entries of one PID may get
  different answers (the process may exit in between).
\<close>

record scan_env =
  net_connections :: "exc + conn list"
  scan_Process :: "nat \<Rightarrow> int \<Rightarrow> exc option"
  scan_name :: "nat \<Rightarrow> int \<Rightarrow> exc + string"

text \<open>
  What the OS answers during one \<open>try_kill_pid\<close>: each call is made at most once, and
  \<open>None\<close> means that it returned without raising.
\<close>

record kill_env =
  platform :: string
  k_Process :: "exc option"
  k_terminate :: "exc option"
  k_wait1 :: "exc option"
  k_kill :: "exc option"
  k_wait2 :: "exc option"
  k_taskkill :: "exc option"
  k_oskill :: "exc option"

subsection \<open>The widget's state\<close>

datatype dialog =
    Critical string string
  | Information string string
  | Question string string

datatype reply = Yes | No

text \<open>
  \<open>all_rows\<close> is the attribute \<open>_all_rows\<close>, \<open>None\<close> while it has never been assigned.
  \<open>table\<close> holds the rows that \<open>populate_table\<close> last put on display. \<open>dialogs\<close> and
  \<open>os_log\<close> record, in order, the message boxes shown and the OS calls made so far.
\<close>

record state =
  all_rows :: "row list option"
  table :: "row list"
  search_input :: string
  status_label :: string
  dialogs :: "dialog list"
  os_log :: "os_action list"

subsection \<open>format\_local\_addr and safe\_proc\_name\<close>

fun format_local_addr :: "addr option \<Rightarrow> string" where
  "format_local_addr None = []"
| "format_local_addr (Some (ip, port)) = ip @ '':'' @ str_int port"

text \<open>The body of the \<open>try\<close>: \<open>psutil.Process(pid)\<close>, then \<open>p.name()\<close>.\<close>

definition proc_name_body :: "scan_env \<Rightarrow> nat \<Rightarrow> int \<Rightarrow> (exc + string) \<times> os_action list" where
  "proc_name_body env i pid =
     (case scan_Process env i pid of
        Some e \<Rightarrow> (Inl e, [ProcessHandle pid])
      | None \<Rightarrow> (scan_name env i pid, [ProcessHandle pid, ProcName pid]))"

definition safe_proc_name :: "scan_env \<Rightarrow> nat \<Rightarrow> int \<Rightarrow> string \<times> os_action list" where
  "safe_proc_name env i pid =
     (case proc_name_body env i pid of
        (Inr n, l) \<Rightarrow> (n, l)
      | (Inl e, l) \<Rightarrow> (''<unknown>'', l))"

subsection \<open>refresh\<close>

definition make_row :: "scan_env \<Rightarrow> nat \<Rightarrow> conn \<Rightarrow> row \<times> os_action list" where
  "make_row env i c =
     (let pid = (case c_pid c of Some p \<Rightarrow> p | None \<Rightarrow> - 1);
          proto = (case c_type c of
                     SOCK_STREAM \<Rightarrow> ''TCP''
                   | SOCK_DGRAM \<Rightarrow> ''UDP''
                   | SOCK_OTHER n \<Rightarrow> str_int n);
          laddr = (if c_laddr c \<noteq> None then format_local_addr (c_laddr c) else []);
          raddr = (if c_raddr c \<noteq> None then format_local_addr (c_raddr c) else []);
          status = (case c_status c of Some s \<Rightarrow> s | None \<Rightarrow> []);
          (pname, l) = (if pid > 0 then safe_proc_name env i pid else ([], []))
      in ((proto, laddr, raddr, status, pid, pname), l))"

fun build_rows :: "scan_env \<Rightarrow> nat \<Rightarrow> conn list \<Rightarrow> row list \<times> os_action list" where
  "build_rows env i [] = ([], [])"
| "build_rows env i (c # cs) =
     (let (r, l) = make_row env i c;
          (rs, ls) = build_rows env (Suc i) cs
      in (r # rs, l @ ls))"

definition row_sort_key :: "row \<Rightarrow> int \<times> string \<times> string" where
  "row_sort_key r =
     (case r of (proto, laddr, raddr, status, pid, pname) \<Rightarrow>
        let port = (if py_in '':'' laddr
                    then (case py_int (after_last_colon laddr) of
                            Some n \<Rightarrow> n
                          | None \<Rightarrow> 0)
                    else 0)
        in (port, proto, if pname \<noteq> [] then pname else []))"

definition populate_table :: "row list \<Rightarrow> state \<Rightarrow> state" where
  "populate_table rows st = st\<lparr>table := rows\<rparr>"

subsection \<open>apply\_filter\<close>

text \<open>The loop over \<open>_all_rows\<close>; the first branch is the one that ends in \<open>continue\<close>.\<close>

fun filter_rows :: "string \<Rightarrow> row list \<Rightarrow> row list" where
  "filter_rows q [] = []"
| "filter_rows q ((proto, laddr, raddr, status, pid, pname) # rs) =
     (if py_isdigit q \<and> (py_in q laddr \<or> py_in q raddr \<or> q = str_int pid)
      then (proto, laddr, raddr, status, pid, pname) # filter_rows q rs
      else if py_in q (lower pname) \<or> py_in q (lower proto) \<or> py_in q (lower laddr)
              \<or> py_in q (lower raddr) \<or> py_in q (lower status)
      then (proto, laddr, raddr, status, pid, pname) # filter_rows q rs
      else filter_rows q rs)"

definition apply_filter :: "state \<Rightarrow> state" where
  "apply_filter st =
     (let q = lower (strip (search_input st)) in
      case all_rows st of
        None \<Rightarrow> st
      | Some rows \<Rightarrow>
          if q = [] then populate_table rows st
          else populate_table (filter_rows q rows) st)"

definition refresh :: "scan_env \<Rightarrow> state \<Rightarrow> state" where
  "refresh env st =
     (case net_connections env of
        Inl e \<Rightarrow>
          st\<lparr>dialogs := dialogs st @
                [Critical ''Error'' (''Failed to enumerate connections:'' @ [CHR 0x0A] @ exc_str e)],
             os_log := os_log st @ [NetConnections]\<rparr>
      | Inr conns \<Rightarrow>
          (let (rows0, l) = build_rows env 0 conns;
               rows = sort_key row_sort_key rows0;
               st1 = st\<lparr>all_rows := Some rows, os_log := os_log st @ NetConnections # l\<rparr>;
               st2 = populate_table rows st1;
               st3 = apply_filter st2
           in st3\<lparr>status_label := str_nat (length rows) @ '' socket(s) found''\<rparr>))"

subsection \<open>try\_kill\_pid and on\_kill\_clicked\<close>

text \<open>
  The body of the outer \<open>try\<close>. \<open>Inl e\<close> is an exception that leaves the body: one
  raised by \<open>Process\<close>, \<open>terminate\<close> or the first \<open>wait\<close> (other than a timeout), or
  one raised inside the handler of the timeout, by \<open>kill\<close> or the second \<open>wait\<close>.
\<close>

definition kill_body :: "kill_env \<Rightarrow> int \<Rightarrow> (exc + bool \<times> string) \<times> os_action list" where
  "kill_body env pid =
     (case k_Process env of
        Some e \<Rightarrow> (Inl e, [ProcessHandle pid])
      | None \<Rightarrow>
         (case k_terminate env of
            Some e \<Rightarrow> (Inl e, [ProcessHandle pid, Terminate pid])
          | None \<Rightarrow>
             (case k_wait1 env of
                None \<Rightarrow> (Inr (True, ''terminated''), [ProcessHandle pid, Terminate pid, Wait pid 3])
              | Some e \<Rightarrow>
                  if exc_cls e = TimeoutExpired then
                    (case k_kill env of
                       Some e' \<Rightarrow>
                         (Inl e', [ProcessHandle pid, Terminate pid, Wait pid 3, Kill pid])
                     | None \<Rightarrow>
                        (case k_wait2 env of
                           Some e' \<Rightarrow>
                             (Inl e', [ProcessHandle pid, Terminate pid, Wait pid 3, Kill pid,
                                       Wait pid 3])
                         | None \<Rightarrow>
                             (Inr (True, ''killed''),
                              [ProcessHandle pid, Terminate pid, Wait pid 3, Kill pid,
                               Wait pid 3])))
                  else (Inl e, [ProcessHandle pid, Terminate pid, Wait pid 3]))))"

text \<open>The handler \<open>except Exception as e\<close>: the fallback of the platform.\<close>

definition fallback :: "kill_env \<Rightarrow> int \<Rightarrow> exc \<Rightarrow> (bool \<times> string) \<times> os_action list" where
  "fallback env pid e =
     (if prefix ''win'' (platform env) then
        (case k_taskkill env of
           None \<Rightarrow> ((True, ''taskkill''), [Taskkill pid])
         | Some e2 \<Rightarrow>
             ((False, exc_str e @ ''; taskkill failed: '' @ exc_str e2), [Taskkill pid]))
      else
        (case k_oskill env of
           Some e3 \<Rightarrow>
             if exc_cls e3 = PermissionError
             then ((False, ''permission denied: '' @ exc_str e3), [OsKill pid])
             else ((False, exc_str e3), [OsKill pid])
         | None \<Rightarrow> ((True, ''SIGTERM sent''), [OsKill pid])))"

definition try_kill_pid :: "kill_env \<Rightarrow> int \<Rightarrow> (bool \<times> string) \<times> os_action list" where
  "try_kill_pid env pid =
     (case kill_body env pid of
        (Inr r, l) \<Rightarrow> (r, l)
      | (Inl e, l) \<Rightarrow>
          if exc_cls e = NoSuchProcess \<or> exc_cls e = ProcessLookupError
          then ((False, ''process not found''), l)
          else (case fallback env pid e of (r, l') \<Rightarrow> (r, l @ l')))"

definition show_dialog :: "dialog \<Rightarrow> state \<Rightarrow> state" where
  "show_dialog d st = st\<lparr>dialogs := dialogs st @ [d]\<rparr>"

definition on_kill_clicked ::
  "kill_env \<Rightarrow> scan_env \<Rightarrow> reply \<Rightarrow> int \<Rightarrow> string \<Rightarrow> string \<Rightarrow> state \<Rightarrow> state" where
  "on_kill_clicked kenv senv answer pid pname local_addr st =
     (if pid = 0 \<or> pid \<le> 0 then
        show_dialog
          (Information ''No PID'' ''This socket is not associated with a visible PID.'') st
      else
        (let st1 = show_dialog
               (Question ''Confirm Kill''
                  (''Really kill process '' @ (if pname \<noteq> [] then pname else []) @ '' (PID ''
                   @ str_int pid @ '')?'' @ [CHR 0x0A] @ ''This will free '' @ local_addr
                   @ '' if it owns it.'')) st
         in if answer \<noteq> Yes then st1
            else
              (case try_kill_pid kenv pid of
                 ((success, msg), l) \<Rightarrow>
                   (let st2 = st1\<lparr>os_log := os_log st1 @ l\<rparr> in
                    if success then
                      refresh senv
                        (show_dialog
                           (Information ''Killed''
                              (''Successfully signaled PID '' @ str_int pid @ ''.'')) st2)
                    else
                      show_dialog
                        (Critical ''Failed''
                           (''Failed to kill PID '' @ str_int pid @ '':'' @ [CHR 0x0A] @ msg))
                        st2))))"

subsection \<open>Derived notions used in the statements\<close>

text \<open>The PID that \<open>refresh\<close> gives a raw entry: \<open>-1\<close> when the OS reports none.\<close>

definition conn_pid :: "conn \<Rightarrow> int" where
  "conn_pid c = (case c_pid c of Some p \<Rightarrow> p | None \<Rightarrow> - 1)"

text \<open>The condition under which the loop of \<open>apply_filter\<close> appends a row.\<close>

definition row_matches :: "string \<Rightarrow> row \<Rightarrow> bool" where
  "row_matches q r =
     (case r of (proto, laddr, raddr, status, pid, pname) \<Rightarrow>
        (py_isdigit q \<and> (py_in q laddr \<or> py_in q raddr \<or> q = str_int pid))
        \<or> py_in q (lower pname) \<or> py_in q (lower proto) \<or> py_in q (lower laddr)
        \<or> py_in q (lower raddr) \<or> py_in q (lower status))"

text \<open>The pair that the handler \<open>except Exception as e\<close> returns.\<close>

definition fallback_result :: "kill_env \<Rightarrow> exc \<Rightarrow> bool \<times> string" where
  "fallback_result env e =
     (if prefix ''win'' (platform env) then
        (case k_taskkill env of
           None \<Rightarrow> (True, ''taskkill'')
         | Some e2 \<Rightarrow> (False, exc_str e @ ''; taskkill failed: '' @ exc_str e2))
      else
        (case k_oskill env of
           None \<Rightarrow> (True, ''SIGTERM sent'')
         | Some e3 \<Rightarrow>
             if exc_cls e3 = PermissionError then (False, ''permission denied: '' @ exc_str e3)
             else (False, exc_str e3)))"

subsection \<open>Sample inputs\<close>

text \<open>
  Three sockets: a listener of PID 100 on port 8080, a UDP socket on port 53 with no
  visible owner, and a listener on port 22 whose process 4242 exits before its name is read.
\<close>

definition sample_conns :: "conn list" where
  "sample_conns =
     [\<lparr>c_pid = Some 100, c_type = SOCK_STREAM, c_laddr = Some (''127.0.0.1'', 8080),
       c_raddr = None, c_status = Some ''LISTEN''\<rparr>,
      \<lparr>c_pid = None, c_type = SOCK_DGRAM, c_laddr = Some (''0.0.0.0'', 53),
       c_raddr = None, c_status = Some []\<rparr>,
      \<lparr>c_pid = Some 4242, c_type = SOCK_STREAM, c_laddr = Some (''0.0.0.0'', 22),
       c_raddr = None, c_status = Some ''LISTEN''\<rparr>]"

definition vanished :: exc where
  "vanished = Exc NoSuchProcess ''process no longer exists (pid=4242)''"

definition sample_scan :: scan_env where
  "sample_scan =
     \<lparr>net_connections = Inr sample_conns,
      scan_Process = (\<lambda>i p. if p = 4242 then Some vanished else None),
      scan_name = (\<lambda>i p. Inr ''nginx'')\<rparr>"

definition failing_scan :: scan_env where
  "failing_scan =
     \<lparr>net_connections = Inl (Exc PermissionError ''[Errno 13] Permission denied''),
      scan_Process = (\<lambda>i p. None),
      scan_name = (\<lambda>i p. Inr ''nginx'')\<rparr>"

definition sample_rows :: "row list" where
  "sample_rows =
     [(''TCP'', ''0.0.0.0:22'', [], ''LISTEN'', 4242, ''<unknown>''),
      (''UDP'', ''0.0.0.0:53'', [], [], - 1, []),
      (''TCP'', ''127.0.0.1:8080'', [], ''LISTEN'', 100, ''nginx'')]"

text \<open>The widget before its first refresh, and after a refresh that found the sample.\<close>

definition fresh_state :: state where
  "fresh_state =
     \<lparr>all_rows = None, table = [], search_input = ''80'', status_label = [],
      dialogs = [], os_log = []\<rparr>"

definition loaded_state :: state where
  "loaded_state =
     \<lparr>all_rows = Some sample_rows, table = sample_rows, search_input = '' Udp '',
      status_label = ''3 socket(s) found'', dialogs = [], os_log = []\<rparr>"

definition timed_out :: exc where
  "timed_out = Exc TimeoutExpired ''timeout after 3 seconds (pid=4242)''"

definition graceful_env :: kill_env where
  "graceful_env =
     \<lparr>platform = ''linux'', k_Process = None, k_terminate = None, k_wait1 = None,
      k_kill = None, k_wait2 = None, k_taskkill = None, k_oskill = None\<rparr>"

definition stubborn_env :: kill_env where
  "stubborn_env = graceful_env\<lparr>k_wait1 := Some timed_out, k_wait2 := Some timed_out\<rparr>"


text \<open>
  What a Linux host answers for the PID \<open>-1\<close>: \<open>psutil.Process\<close> refuses a PID that is
  not positive with a \<open>ValueError\<close>, and \<open>os.kill\<close> accepts \<open>-1\<close> and returns.
\<close>

definition negative_pid_env :: kill_env where
  "negative_pid_env =
     graceful_env\<lparr>k_Process :=
                    Some (Exc OtherException ''pid must be a positive integer (got -1)'')\<rparr>"


section \<open>Properties\<close>

subsection \<open>What refresh computes\<close>

lemma refresh_Inl:
  "net_connections env = Inl e \<Longrightarrow>
   refresh env st =
     st\<lparr>dialogs := dialogs st @
           [Critical ''Error'' (''Failed to enumerate connections:'' @ [CHR 0x0A] @ exc_str e)],
        os_log := os_log st @ [NetConnections]\<rparr>"
  by (simp add: refresh_def)

lemma refresh_Inr_rows:
  "net_connections env = Inr conns \<Longrightarrow>
   all_rows (refresh env st) = Some (sort_key row_sort_key (fst (build_rows env 0 conns)))"
  by (simp add: refresh_def apply_filter_def populate_table_def Let_def split: prod.splits)

lemma refresh_Inr_table:
  "net_connections env = Inr conns \<Longrightarrow>
   table (refresh env st) =
     (let rows = sort_key row_sort_key (fst (build_rows env 0 conns));
          q = lower (strip (search_input st))
      in if q = [] then rows else filter_rows q rows)"
  by (simp add: refresh_def apply_filter_def populate_table_def Let_def split: prod.splits)

lemma refresh_Inr_status:
  "net_connections env = Inr conns \<Longrightarrow>
   status_label (refresh env st) =
     str_nat (length (fst (build_rows env 0 conns))) @ '' socket(s) found''"
  by (simp add: refresh_def apply_filter_def populate_table_def Let_def split: prod.splits)

lemma refresh_Inr_log:
  "net_connections env = Inr conns \<Longrightarrow>
   os_log (refresh env st) = os_log st @ NetConnections # snd (build_rows env 0 conns)"
  by (simp add: refresh_def apply_filter_def populate_table_def Let_def
      split: prod.splits option.splits)

subsection \<open>Filtering before the first snapshot\<close>

text \<open>
  C10: while no snapshot has been stored (the attribute \<open>_all_rows\<close> does not exist yet,
  as after a first enumeration that failed), \<open>apply_filter\<close> returns the state it was
  given, whatever the search text is: the table, the dialogs and the history of OS calls
  are all unchanged, and the function is total, so it returns without error.
\<close>

theorem filter_before_first_snapshot_is_noop:
  "all_rows st = None \<Longrightarrow> apply_filter st = st"
  by (simp add: apply_filter_def)

theorem filter_before_first_snapshot_is_noop_witness:
  "all_rows fresh_state = None \<and> search_input fresh_state = ''80''
   \<and> apply_filter fresh_state = fresh_state"
  using filter_before_first_snapshot_is_noop [of fresh_state]
  by (simp add: fresh_state_def)

subsection \<open>Killing without a PID\<close>

text \<open>
  C9, as the code has it: the guard against a missing PID is in the click handler, the
  only caller of \<open>try_kill_pid\<close>. For every \<open>pid \<le> 0\<close>, \<open>on_kill_clicked\<close> returns at
  once: its only effect is the information notice titled \<open>No PID\<close>; it asks for no
  confirmation, does not call \<open>try_kill_pid\<close>, so it resolves no process handle and sends
  no signal (the history of OS calls is unchanged), and it does not take the success path
  (no notice \<open>Killed\<close>, no refresh). This holds whatever the OS would have answered and
  whatever the operator would have replied.
\<close>

theorem kill_without_pid:
  "pid \<le> 0 \<Longrightarrow>
     on_kill_clicked kenv senv answer pid pname local_addr st =
       st\<lparr>dialogs := dialogs st @
            [Information ''No PID'' ''This socket is not associated with a visible PID.'']\<rparr>"
  by (simp add: on_kill_clicked_def show_dialog_def)

theorem kill_without_pid_witness:
  "(- 1 :: int) \<le> 0
   \<and> os_log (on_kill_clicked graceful_env sample_scan Yes (- 1) [] ''0.0.0.0:53'' loaded_state) = []
   \<and> dialogs (on_kill_clicked graceful_env sample_scan Yes (- 1) [] ''0.0.0.0:53'' loaded_state) =
       [Information ''No PID'' ''This socket is not associated with a visible PID.'']"
  using kill_without_pid [of "- 1" graceful_env sample_scan Yes "[]" "''0.0.0.0:53''" loaded_state]
  by (simp add: loaded_state_def)

text \<open>
  C9 as stated fails. \<open>try_kill_pid\<close> itself has no guard: called with the PID \<open>-1\<close>
  it asks for a process handle, and when \<open>psutil.Process\<close> refuses the PID the fallback
  sends the signal with \<open>os.kill\<close> and the result is the success
  \<open>(True, "SIGTERM sent")\<close>, not a failure with the reason \<open>no PID\<close>.
\<close>

theorem terminate_has_no_pid_guard:
  "(- 1 :: int) \<le> 0
   \<and> try_kill_pid negative_pid_env (- 1) =
       ((True, ''SIGTERM sent''), [ProcessHandle (- 1), OsKill (- 1)])
   \<and> snd (fst (try_kill_pid negative_pid_env (- 1))) \<noteq> ''no PID''"
  by (simp add: negative_pid_env_def graceful_env_def try_kill_pid_def kill_body_def
      fallback_def)

subsection \<open>A failed enumeration\<close>

text \<open>
  C6: when \<open>psutil.net_connections\<close> raises, \<open>refresh\<close> stores nothing: the snapshot, the
  table on display, the search text and the status line are those of before, and the only
  effect is the error dialog. The failure is confined to that cycle: a later refresh whose
  enumeration succeeds yields the same snapshot, table and status line as it would have
  without the failed one.
\<close>

theorem failed_enumeration_keeps_snapshot:
  assumes "net_connections env = Inl e"
  shows "all_rows (refresh env st) = all_rows st
       \<and> table (refresh env st) = table st
       \<and> search_input (refresh env st) = search_input st
       \<and> status_label (refresh env st) = status_label st
       \<and> dialogs (refresh env st) = dialogs st @
            [Critical ''Error'' (''Failed to enumerate connections:'' @ [CHR 0x0A] @ exc_str e)]
       \<and> (\<forall>env' conns. net_connections env' = Inr conns \<longrightarrow>
             all_rows (refresh env' (refresh env st)) = all_rows (refresh env' st)
           \<and> table (refresh env' (refresh env st)) = table (refresh env' st)
           \<and> status_label (refresh env' (refresh env st)) = status_label (refresh env' st))"
proof -
  have r: "refresh env st =
      st\<lparr>dialogs := dialogs st @
            [Critical ''Error'' (''Failed to enumerate connections:'' @ [CHR 0x0A] @ exc_str e)],
         os_log := os_log st @ [NetConnections]\<rparr>"
    using assms by (rule refresh_Inl)
  have later: "all_rows (refresh env' (refresh env st)) = all_rows (refresh env' st)
           \<and> table (refresh env' (refresh env st)) = table (refresh env' st)
           \<and> status_label (refresh env' (refresh env st)) = status_label (refresh env' st)"
    if "net_connections env' = Inr conns" for env' conns
    using that by (simp add: refresh_Inr_rows refresh_Inr_table refresh_Inr_status r)
  show ?thesis using later by (simp add: r)
qed

theorem failed_enumeration_keeps_snapshot_witness:
  "net_connections failing_scan = Inl (Exc PermissionError ''[Errno 13] Permission denied'')
   \<and> all_rows (refresh failing_scan loaded_state) = Some sample_rows
   \<and> table (refresh failing_scan loaded_state) = sample_rows
   \<and> all_rows (refresh sample_scan (refresh failing_scan loaded_state)) =
       all_rows (refresh sample_scan loaded_state)"
  using failed_enumeration_keeps_snapshot
    [of failing_scan "Exc PermissionError ''[Errno 13] Permission denied''" loaded_state]
  by (simp add: failing_scan_def loaded_state_def sample_scan_def)

subsection \<open>Building the rows\<close>


lemma safe_proc_name_log:
  "a \<in> set (snd (safe_proc_name env i pid)) \<Longrightarrow> a = ProcessHandle pid \<or> a = ProcName pid"
  by (auto simp: safe_proc_name_def proc_name_body_def split: option.splits sum.splits)

lemma make_row_fst:
  "\<exists>proto laddr raddr status.
     fst (make_row env i c) =
       (proto, laddr, raddr, status, conn_pid c,
        if conn_pid c > 0 then fst (safe_proc_name env i (conn_pid c)) else [])"
  by (simp add: make_row_def conn_pid_def Let_def case_prod_beta)

lemma make_row_snd:
  "snd (make_row env i c) =
     (if conn_pid c > 0 then snd (safe_proc_name env i (conn_pid c)) else [])"
  by (simp add: make_row_def conn_pid_def Let_def case_prod_beta)

lemma make_row_no_pid:
  assumes "fst (make_row env i c) = (proto, laddr, raddr, status, pid, pname)" and "pid \<le> 0"
  shows "pname = []"
  using assms make_row_fst [of env i c] by auto

lemma make_row_log:
  assumes "a \<in> set (snd (make_row env i c))"
  shows "\<exists>p. 0 < p \<and> (a = ProcessHandle p \<or> a = ProcName p)"
proof (cases "conn_pid c > 0")
  case True
  with assms have "a \<in> set (snd (safe_proc_name env i (conn_pid c)))"
    by (simp add: make_row_snd)
  then have "a = ProcessHandle (conn_pid c) \<or> a = ProcName (conn_pid c)"
    by (rule safe_proc_name_log)
  with True show ?thesis by blast
next
  case False
  with assms show ?thesis by (simp add: make_row_snd)
qed


lemma build_rows_Cons_fst:
  "fst (build_rows env i (c # cs)) = fst (make_row env i c) # fst (build_rows env (Suc i) cs)"
  by (simp add: Let_def case_prod_beta)

lemma build_rows_Cons_snd:
  "snd (build_rows env i (c # cs)) = snd (make_row env i c) @ snd (build_rows env (Suc i) cs)"
  by (simp add: Let_def case_prod_beta)



lemma build_rows_set:
  "r \<in> set (fst (build_rows env i cs)) \<Longrightarrow> \<exists>j c. c \<in> set cs \<and> r = fst (make_row env j c)"
proof (induction cs arbitrary: i)
  case Nil
  then show ?case by simp
next
  case (Cons c cs)
  from Cons.prems have "r = fst (make_row env i c) \<or> r \<in> set (fst (build_rows env (Suc i) cs))"
    by (simp add: build_rows_Cons_fst del: build_rows.simps(2))
  then show ?case
  proof
    assume "r = fst (make_row env i c)"
    then show ?thesis by auto
  next
    assume "r \<in> set (fst (build_rows env (Suc i) cs))"
    from Cons.IH [OF this] show ?thesis by auto
  qed
qed

lemma build_rows_log:
  "a \<in> set (snd (build_rows env i cs)) \<Longrightarrow>
     \<exists>j c. c \<in> set cs \<and> a \<in> set (snd (make_row env j c))"
proof (induction cs arbitrary: i)
  case Nil
  then show ?case by simp
next
  case (Cons c cs)
  from Cons.prems
  have "a \<in> set (snd (make_row env i c)) \<or> a \<in> set (snd (build_rows env (Suc i) cs))"
    by (simp add: build_rows_Cons_snd del: build_rows.simps(2))
  then show ?case
  proof
    assume "a \<in> set (snd (make_row env i c))"
    then show ?thesis by auto
  next
    assume "a \<in> set (snd (build_rows env (Suc i) cs))"
    from Cons.IH [OF this] show ?thesis by auto
  qed
qed

subsection \<open>The sample, evaluated\<close>

lemmas py_defs = py_int_def strip_def py_isspace_def space_chars_def is_digit_char_def
  digit_chars_def digit_val_def after_last_colon_def str_int_def str_nat.simps

lemma sample_net: "net_connections sample_scan = Inr sample_conns"
  by (simp add: sample_scan_def)

lemma sample_build:
  "fst (build_rows sample_scan 0 sample_conns) =
     [(''TCP'', ''127.0.0.1:8080'', [], ''LISTEN'', 100, ''nginx''),
      (''UDP'', ''0.0.0.0:53'', [], [], - 1, []),
      (''TCP'', ''0.0.0.0:22'', [], ''LISTEN'', 4242, ''<unknown>'')]"
  by (simp add: sample_conns_def sample_scan_def make_row_def safe_proc_name_def
      proc_name_body_def vanished_def str_int_def str_nat.simps digit_chars_def Let_def)

lemma sample_keys:
  "row_sort_key (''TCP'', ''127.0.0.1:8080'', [], ''LISTEN'', 100, ''nginx'') =
     (8080, ''TCP'', ''nginx'')"
  "row_sort_key (''UDP'', ''0.0.0.0:53'', [], [], - 1, []) = (53, ''UDP'', [])"
  "row_sort_key (''TCP'', ''0.0.0.0:22'', [], ''LISTEN'', 4242, ''<unknown>'') =
     (22, ''TCP'', ''<unknown>'')"
  by (simp_all add: row_sort_key_def py_defs)

lemma sample_sorted:
  "sort_key row_sort_key (fst (build_rows sample_scan 0 sample_conns)) = sample_rows"
  by (simp add: sample_build sample_rows_def sort_key_def sample_keys)

lemma sample_refresh_rows: "all_rows (refresh sample_scan st) = Some sample_rows"
  using refresh_Inr_rows [OF sample_net, of st] by (simp add: sample_sorted)

subsection \<open>Rows without an owner\<close>

text \<open>
  C5: in every snapshot that \<open>refresh\<close> stores, a row whose PID is absent (\<open>pid \<le> 0\<close>,
  the sentinel being \<open>-1\<close>) has the empty process name, and building the snapshot makes no
  name lookup for such a PID: every \<open>psutil.Process\<close> and \<open>name\<close> call that the refresh
  adds to the history of OS calls is for a positive PID.
\<close>

theorem no_pid_no_name:
  assumes "net_connections env = Inr conns"
  shows "\<exists>rows l. all_rows (refresh env st) = Some rows
          \<and> os_log (refresh env st) = os_log st @ NetConnections # l
          \<and> (\<forall>proto laddr raddr status pid pname.
                (proto, laddr, raddr, status, pid, pname) \<in> set rows \<longrightarrow> pid \<le> 0 \<longrightarrow> pname = [])
          \<and> (\<forall>p. ProcessHandle p \<in> set l \<or> ProcName p \<in> set l \<longrightarrow> 0 < p)"
proof -
  let ?rows = "sort_key row_sort_key (fst (build_rows env 0 conns))"
  let ?l = "snd (build_rows env 0 conns)"
  have a: "all_rows (refresh env st) = Some ?rows"
    using assms by (rule refresh_Inr_rows)
  have b: "os_log (refresh env st) = os_log st @ NetConnections # ?l"
    using assms by (rule refresh_Inr_log)
  have c: "pname = []"
    if "(proto, laddr, raddr, status, pid, pname) \<in> set ?rows" "pid \<le> 0"
    for proto laddr raddr status pid pname
  proof -
    from that(1)
    have "(proto, laddr, raddr, status, pid, pname) \<in> set (fst (build_rows env 0 conns))"
      by simp
    then obtain j c where "(proto, laddr, raddr, status, pid, pname) = fst (make_row env j c)"
      using build_rows_set by blast
    then show ?thesis
      using make_row_no_pid [of env j c proto laddr raddr status pid pname] that(2) by simp
  qed
  have d: "0 < p" if "ProcessHandle p \<in> set ?l \<or> ProcName p \<in> set ?l" for p
  proof -
    from that obtain a where a: "a \<in> set ?l" "a = ProcessHandle p \<or> a = ProcName p" by blast
    then obtain j c where "a \<in> set (snd (make_row env j c))"
      using build_rows_log by blast
    then obtain p' where "0 < p'" "a = ProcessHandle p' \<or> a = ProcName p'"
      using make_row_log by blast
    with a(2) show ?thesis by auto
  qed
  show ?thesis using a b c d by blast
qed

theorem no_pid_no_name_witness:
  "net_connections sample_scan = Inr sample_conns
   \<and> all_rows (refresh sample_scan fresh_state) = Some sample_rows
   \<and> (''UDP'', ''0.0.0.0:53'', [], [], - 1, []) \<in> set sample_rows
   \<and> ProcessHandle (- 1) \<notin> set (os_log (refresh sample_scan fresh_state))
   \<and> ProcName (- 1) \<notin> set (os_log (refresh sample_scan fresh_state))"
proof -
  from no_pid_no_name [OF sample_net, of fresh_state] obtain rows l where
    l: "os_log (refresh sample_scan fresh_state) = os_log fresh_state @ NetConnections # l"
      "\<forall>p. ProcessHandle p \<in> set l \<or> ProcName p \<in> set l \<longrightarrow> 0 < p"
    by blast
  from l(2) have "ProcessHandle (- 1) \<notin> set l" "ProcName (- 1) \<notin> set l" by fastforce+
  with l(1) have "ProcessHandle (- 1) \<notin> set (os_log (refresh sample_scan fresh_state))"
    "ProcName (- 1) \<notin> set (os_log (refresh sample_scan fresh_state))"
    by (simp_all add: fresh_state_def)
  then show ?thesis
    using sample_net sample_refresh_rows [of fresh_state] by (simp add: sample_rows_def)
qed

subsection \<open>Failed name lookups\<close>



subsection \<open>Filtering\<close>

lemma filter_rows_filter: "filter_rows q rs = filter (row_matches q) rs"
  by (induction q rs rule: filter_rows.induct) (auto simp: row_matches_def)

lemma count_list_filter_le: "count_list (filter P xs) r \<le> count_list xs r"
  by (induction xs) auto

lemma apply_filter_table:
  "all_rows st = Some rows \<Longrightarrow>
   table (apply_filter st) =
     (if lower (strip (search_input st)) = [] then rows
      else filter (row_matches (lower (strip (search_input st)))) rows)"
  by (simp add: apply_filter_def populate_table_def Let_def filter_rows_filter)

lemma apply_filter_all_rows: "all_rows (apply_filter st) = all_rows st"
  by (simp add: apply_filter_def populate_table_def Let_def split: option.splits)

lemma strip_Nil: "strip [] = []"
  by (simp add: strip_def)

lemma lower_Nil: "lower [] = []"
  by (simp add: lower_def)

text \<open>
  C4: with a stored snapshot, \<open>apply_filter\<close> leaves the snapshot as it is and puts on
  display, for the empty query (the search text stripped and lower-cased), the whole
  snapshot in its order, and for any other query the rows that match it, each tested once
  in snapshot order. So the rows on display are always a subsequence of the snapshot, and
  no row appears more often than in the snapshot, however many of its fields match.
\<close>

theorem filter_preserves_order:
  assumes "all_rows st = Some rows"
  shows "all_rows (apply_filter st) = Some rows
       \<and> (lower (strip (search_input st)) = [] \<longrightarrow> table (apply_filter st) = rows)
       \<and> (lower (strip (search_input st)) \<noteq> [] \<longrightarrow>
            table (apply_filter st) = filter (row_matches (lower (strip (search_input st)))) rows)
       \<and> subseq (table (apply_filter st)) rows
       \<and> (\<forall>r. count_list (table (apply_filter st)) r \<le> count_list rows r)"
proof -
  note t = apply_filter_table [OF assms]
  have "subseq (table (apply_filter st)) rows" by (simp add: t)
  moreover have "\<forall>r. count_list (table (apply_filter st)) r \<le> count_list rows r"
    by (simp add: t count_list_filter_le)
  ultimately show ?thesis using assms by (simp add: t apply_filter_all_rows)
qed

theorem filter_preserves_order_witness:
  "all_rows loaded_state = Some sample_rows
   \<and> lower (strip (search_input loaded_state)) = ''udp''
   \<and> table (apply_filter loaded_state) = [(''UDP'', ''0.0.0.0:53'', [], [], - 1, [])]
   \<and> subseq (table (apply_filter loaded_state)) sample_rows
   \<and> table (apply_filter (loaded_state\<lparr>search_input := []\<rparr>)) = sample_rows"
proof -
  have a: "all_rows loaded_state = Some sample_rows" by (simp add: loaded_state_def)
  have b: "all_rows (loaded_state\<lparr>search_input := []\<rparr>) = Some sample_rows"
    by (simp add: loaded_state_def)
  have q: "lower (strip (search_input loaded_state)) = ''udp''"
    by (simp add: loaded_state_def strip_def lower_def lower_char_def py_isspace_def
        space_chars_def)
  have m: "filter (row_matches ''udp'') sample_rows = [(''UDP'', ''0.0.0.0:53'', [], [], - 1, [])]"
    by (simp add: sample_rows_def row_matches_def py_isdigit_def is_digit_char_def
        digit_chars_def lower_def lower_char_def)
  from filter_preserves_order [OF a]
  have t: "table (apply_filter loaded_state) = [(''UDP'', ''0.0.0.0:53'', [], [], - 1, [])]"
    using q m by simp
  from filter_preserves_order [OF a]
  have s: "subseq (table (apply_filter loaded_state)) sample_rows"
    by blast
  from filter_preserves_order [OF b]
  have e: "table (apply_filter (loaded_state\<lparr>search_input := []\<rparr>)) = sample_rows"
    by (simp add: strip_Nil lower_Nil)
  show ?thesis using a q t s e by blast
qed

text \<open>
  C3: let the query (the search text stripped and lower-cased) be numeric. A row of the
  snapshot is put on display if the query equals its PID written as a string, with no
  condition on its other fields, and also if the query occurs in its local or its remote
  address. A row for which neither holds is put on display exactly if the query occurs in
  the lower-cased process name, protocol, local address, remote address or status.
\<close>

theorem numeric_query_matches:
  assumes "all_rows st = Some rows"
    and "lower (strip (search_input st)) = q"
    and "py_isdigit q"
    and "(proto, laddr, raddr, status, pid, pname) \<in> set rows"
  shows "(q = str_int pid \<longrightarrow>
            (proto, laddr, raddr, status, pid, pname) \<in> set (table (apply_filter st)))
       \<and> (py_in q laddr \<or> py_in q raddr \<longrightarrow>
            (proto, laddr, raddr, status, pid, pname) \<in> set (table (apply_filter st)))
       \<and> (q \<noteq> str_int pid \<and> \<not> py_in q laddr \<and> \<not> py_in q raddr \<longrightarrow>
            ((proto, laddr, raddr, status, pid, pname) \<in> set (table (apply_filter st)) \<longleftrightarrow>
               py_in q (lower pname) \<or> py_in q (lower proto) \<or> py_in q (lower laddr)
               \<or> py_in q (lower raddr) \<or> py_in q (lower status)))"
proof -
  from assms(3) have "q \<noteq> []" by (simp add: py_isdigit_def)
  with assms(1,2) have "table (apply_filter st) = filter (row_matches q) rows"
    by (simp add: apply_filter_table)
  with assms(3,4) show ?thesis by (auto simp: row_matches_def)
qed

theorem numeric_query_matches_witness:
  "all_rows (loaded_state\<lparr>search_input := ''100''\<rparr>) = Some sample_rows
   \<and> lower (strip ''100'') = ''100'' \<and> py_isdigit ''100'' \<and> str_int 100 = ''100''
   \<and> \<not> py_in ''100'' (lower ''nginx'') \<and> \<not> py_in ''100'' (lower ''TCP'')
   \<and> \<not> py_in ''100'' ''127.0.0.1:8080'' \<and> \<not> py_in ''100'' (lower ''LISTEN'')
   \<and> (''TCP'', ''127.0.0.1:8080'', [], ''LISTEN'', 100, ''nginx'')
       \<in> set (table (apply_filter (loaded_state\<lparr>search_input := ''100''\<rparr>)))"
proof -
  have a: "all_rows (loaded_state\<lparr>search_input := ''100''\<rparr>) = Some sample_rows"
    by (simp add: loaded_state_def)
  have b: "lower (strip (search_input (loaded_state\<lparr>search_input := ''100''\<rparr>))) = ''100''"
    by (simp add: strip_def lower_def lower_char_def py_isspace_def space_chars_def)
  have c: "py_isdigit ''100''"
    by (simp add: py_isdigit_def is_digit_char_def digit_chars_def)
  have d: "(''TCP'', ''127.0.0.1:8080'', [], ''LISTEN'', 100, ''nginx'') \<in> set sample_rows"
    by (simp add: sample_rows_def)
  have e: "str_int 100 = ''100''"
    by (simp add: str_int_def str_nat.simps digit_chars_def)
  have f: "\<not> py_in ''100'' (lower ''nginx'')" "\<not> py_in ''100'' (lower ''TCP'')"
    "\<not> py_in ''100'' ''127.0.0.1:8080''" "\<not> py_in ''100'' (lower ''LISTEN'')"
    by (simp_all add: lower_def lower_char_def)
  from numeric_query_matches [OF a b c d] e
  have "(''TCP'', ''127.0.0.1:8080'', [], ''LISTEN'', 100, ''nginx'')
       \<in> set (table (apply_filter (loaded_state\<lparr>search_input := ''100''\<rparr>)))"
    by simp
  then show ?thesis using a b c e f by simp
qed

subsection \<open>Sorting\<close>

lemma row_sort_key_eq:
  "row_sort_key (proto, laddr, raddr, status, pid, pname) =
     (if py_in '':'' laddr
      then (case py_int (after_last_colon laddr) of Some n \<Rightarrow> n | None \<Rightarrow> 0)
      else 0,
      proto, pname)"
  by (simp add: row_sort_key_def Let_def)

lemma unparsable_port:
  "\<not> py_in '':'' laddr \<or> py_int (after_last_colon laddr) = None \<Longrightarrow>
     fst (row_sort_key (proto, laddr, raddr, status, pid, pname)) = 0"
  by (auto simp: row_sort_key_eq)

lemma row_sort_key_snd:
  "snd (row_sort_key (proto, laddr, raddr, status, pid, pname)) = (proto, pname)"
  by (simp add: row_sort_key_eq)

lemma refresh_Inr_sorted:
  assumes "net_connections env = Inr conns"
  shows "\<exists>rows. all_rows (refresh env st) = Some rows
          \<and> sorted (map row_sort_key rows)
          \<and> mset rows = mset (fst (build_rows env 0 conns))
          \<and> (\<forall>k. filter (\<lambda>r. row_sort_key r = k) rows
                  = filter (\<lambda>r. row_sort_key r = k) (fst (build_rows env 0 conns)))"
  using refresh_Inr_rows [OF assms, of st] by (simp add: sort_key_stable)

lemma four_rows_sorted:
  fixes r1 r2 r3 r4 :: row
  assumes "fst (row_sort_key r1) = 80" and "fst (row_sort_key r2) = 22"
    and "fst (row_sort_key r3) = 0" and "fst (row_sort_key r4) = 80"
  shows "sort_key row_sort_key [r1, r2, r3, r4] =
           [r3, r2] @ (if snd (row_sort_key r4) < snd (row_sort_key r1) then [r4, r1]
                       else [r1, r4])"
proof -
  obtain s1 s2 s3 s4 where k: "row_sort_key r1 = (80, s1)" "row_sort_key r2 = (22, s2)"
      "row_sort_key r3 = (0, s3)" "row_sort_key r4 = (80, s4)"
    using assms by (metis prod.collapse)
  show ?thesis by (auto simp: k sort_key_def)
qed

text \<open>
  C2: the key of a row is the triple of its local port (the integer after the last colon
  of the local address, \<open>0\<close> when there is no colon or the text is not an integer), its
  protocol label and its process name, compared lexicographically. Every snapshot that
  \<open>refresh\<close> stores holds exactly the rows built from the enumeration, in ascending order
  of their keys, rows of equal keys in enumeration order. In particular, four rows with
  local ports 80, 22, unparsable and 80 are sorted with the unparsable one first, then
  port 22, then the two rows of port 80, the fourth before the first exactly when its
  pair of protocol and process name is the smaller one.
\<close>

theorem snapshot_sorted_by_key:
  "row_sort_key (proto, laddr, raddr, status, pid, pname) =
     (if py_in '':'' laddr
      then (case py_int (after_last_colon laddr) of Some n \<Rightarrow> n | None \<Rightarrow> 0)
      else 0,
      proto, pname)
   \<and> (net_connections env = Inr conns \<longrightarrow>
        (\<exists>rows. all_rows (refresh env st) = Some rows
           \<and> sorted (map row_sort_key rows)
           \<and> mset rows = mset (fst (build_rows env 0 conns))
           \<and> (\<forall>k. filter (\<lambda>r. row_sort_key r = k) rows
                   = filter (\<lambda>r. row_sort_key r = k) (fst (build_rows env 0 conns)))))
   \<and> (fst (row_sort_key (p1, l1, ra1, s1, i1, n1)) = 80
        \<and> fst (row_sort_key (p2, l2, ra2, s2, i2, n2)) = 22
        \<and> (\<not> py_in '':'' l3 \<or> py_int (after_last_colon l3) = None)
        \<and> fst (row_sort_key (p4, l4, ra4, s4, i4, n4)) = 80 \<longrightarrow>
      sort_key row_sort_key
        [(p1, l1, ra1, s1, i1, n1), (p2, l2, ra2, s2, i2, n2),
         (p3, l3, ra3, s3, i3, n3), (p4, l4, ra4, s4, i4, n4)] =
        [(p3, l3, ra3, s3, i3, n3), (p2, l2, ra2, s2, i2, n2)] @
        (if (p4, n4) < (p1, n1)
         then [(p4, l4, ra4, s4, i4, n4), (p1, l1, ra1, s1, i1, n1)]
         else [(p1, l1, ra1, s1, i1, n1), (p4, l4, ra4, s4, i4, n4)]))"
proof (intro conjI impI)
  show "row_sort_key (proto, laddr, raddr, status, pid, pname) =
     (if py_in '':'' laddr
      then (case py_int (after_last_colon laddr) of Some n \<Rightarrow> n | None \<Rightarrow> 0)
      else 0,
      proto, pname)"
    by (rule row_sort_key_eq)
next
  assume "net_connections env = Inr conns"
  then show "\<exists>rows. all_rows (refresh env st) = Some rows
           \<and> sorted (map row_sort_key rows)
           \<and> mset rows = mset (fst (build_rows env 0 conns))
           \<and> (\<forall>k. filter (\<lambda>r. row_sort_key r = k) rows
                   = filter (\<lambda>r. row_sort_key r = k) (fst (build_rows env 0 conns)))"
    by (rule refresh_Inr_sorted)
next
  assume a: "fst (row_sort_key (p1, l1, ra1, s1, i1, n1)) = 80
        \<and> fst (row_sort_key (p2, l2, ra2, s2, i2, n2)) = 22
        \<and> (\<not> py_in '':'' l3 \<or> py_int (after_last_colon l3) = None)
        \<and> fst (row_sort_key (p4, l4, ra4, s4, i4, n4)) = 80"
  from a have "\<not> py_in '':'' l3 \<or> py_int (after_last_colon l3) = None"
    by simp
  then have z: "fst (row_sort_key (p3, l3, ra3, s3, i3, n3)) = 0"
    by (rule unparsable_port)
  from a have a1: "fst (row_sort_key (p1, l1, ra1, s1, i1, n1)) = 80"
    and a2: "fst (row_sort_key (p2, l2, ra2, s2, i2, n2)) = 22"
    and a4: "fst (row_sort_key (p4, l4, ra4, s4, i4, n4)) = 80"
    by simp_all
  have "sort_key row_sort_key
        [(p1, l1, ra1, s1, i1, n1), (p2, l2, ra2, s2, i2, n2),
         (p3, l3, ra3, s3, i3, n3), (p4, l4, ra4, s4, i4, n4)] =
        [(p3, l3, ra3, s3, i3, n3), (p2, l2, ra2, s2, i2, n2)] @
        (if snd (row_sort_key (p4, l4, ra4, s4, i4, n4))
              < snd (row_sort_key (p1, l1, ra1, s1, i1, n1))
         then [(p4, l4, ra4, s4, i4, n4), (p1, l1, ra1, s1, i1, n1)]
         else [(p1, l1, ra1, s1, i1, n1), (p4, l4, ra4, s4, i4, n4)])"
    using a1 a2 z a4 by (rule four_rows_sorted)
  then show "sort_key row_sort_key
        [(p1, l1, ra1, s1, i1, n1), (p2, l2, ra2, s2, i2, n2),
         (p3, l3, ra3, s3, i3, n3), (p4, l4, ra4, s4, i4, n4)] =
        [(p3, l3, ra3, s3, i3, n3), (p2, l2, ra2, s2, i2, n2)] @
        (if (p4, n4) < (p1, n1)
         then [(p4, l4, ra4, s4, i4, n4), (p1, l1, ra1, s1, i1, n1)]
         else [(p1, l1, ra1, s1, i1, n1), (p4, l4, ra4, s4, i4, n4)])"
    by (simp only: row_sort_key_snd)
qed

theorem snapshot_sorted_by_key_witness:
  "net_connections sample_scan = Inr sample_conns
   \<and> all_rows (refresh sample_scan fresh_state) = Some sample_rows
   \<and> sorted (map row_sort_key sample_rows)
   \<and> map row_sort_key sample_rows =
       [(22, ''TCP'', ''<unknown>''), (53, ''UDP'', []), (8080, ''TCP'', ''nginx'')]
   \<and> py_int (after_last_colon ''host:http'') = None
   \<and> sort_key row_sort_key
       [(''TCP'', ''0.0.0.0:80'', [], ''LISTEN'', 10, ''nginx''),
        (''TCP'', ''0.0.0.0:22'', [], ''LISTEN'', 11, ''sshd''),
        (''UDP'', ''host:http'', [], [], - 1, []),
        (''TCP'', ''127.0.0.1:80'', [], ''LISTEN'', 12, ''apache'')] =
       [(''UDP'', ''host:http'', [], [], - 1, []),
        (''TCP'', ''0.0.0.0:22'', [], ''LISTEN'', 11, ''sshd''),
        (''TCP'', ''127.0.0.1:80'', [], ''LISTEN'', 12, ''apache''),
        (''TCP'', ''0.0.0.0:80'', [], ''LISTEN'', 10, ''nginx'')]"
proof -
  note t = snapshot_sorted_by_key
    [of "''TCP''" "''0.0.0.0:80''" "[]" "''LISTEN''" 10 "''nginx''" sample_scan sample_conns
        fresh_state
        "''TCP''" "''0.0.0.0:80''" "[]" "''LISTEN''" 10 "''nginx''"
        "''TCP''" "''0.0.0.0:22''" "[]" "''LISTEN''" 11 "''sshd''"
        "''host:http''"
        "''TCP''" "''127.0.0.1:80''" "[]" "''LISTEN''" 12 "''apache''"
        "''UDP''" "[]" "[]" "- 1" "[]"]
  have k: "fst (row_sort_key (''TCP'', ''0.0.0.0:80'', [], ''LISTEN'', 10, ''nginx'')) = 80"
    "fst (row_sort_key (''TCP'', ''0.0.0.0:22'', [], ''LISTEN'', 11, ''sshd'')) = 22"
    "fst (row_sort_key (''TCP'', ''127.0.0.1:80'', [], ''LISTEN'', 12, ''apache'')) = 80"
    by (simp_all add: row_sort_key_def py_defs)
  have u: "py_int (after_last_colon ''host:http'') = None"
    by (simp add: py_defs)
  have c: "((''TCP'', ''apache'') < (''TCP'', ''nginx'')) = True"
    by simp
  from t sample_net sample_refresh_rows [of fresh_state]
  have s: "sorted (map row_sort_key sample_rows)" by auto
  have m: "map row_sort_key sample_rows =
       [(22, ''TCP'', ''<unknown>''), (53, ''UDP'', []), (8080, ''TCP'', ''nginx'')]"
    by (simp add: sample_rows_def sample_keys)
  from t k u have "sort_key row_sort_key
       [(''TCP'', ''0.0.0.0:80'', [], ''LISTEN'', 10, ''nginx''),
        (''TCP'', ''0.0.0.0:22'', [], ''LISTEN'', 11, ''sshd''),
        (''UDP'', ''host:http'', [], [], - 1, []),
        (''TCP'', ''127.0.0.1:80'', [], ''LISTEN'', 12, ''apache'')] =
       [(''UDP'', ''host:http'', [], [], - 1, []),
        (''TCP'', ''0.0.0.0:22'', [], ''LISTEN'', 11, ''sshd'')] @
       (if (''TCP'', ''apache'') < (''TCP'', ''nginx'')
        then [(''TCP'', ''127.0.0.1:80'', [], ''LISTEN'', 12, ''apache''),
              (''TCP'', ''0.0.0.0:80'', [], ''LISTEN'', 10, ''nginx'')]
        else [(''TCP'', ''0.0.0.0:80'', [], ''LISTEN'', 10, ''nginx''),
              (''TCP'', ''127.0.0.1:80'', [], ''LISTEN'', 12, ''apache'')])"
    by blast
  then show ?thesis
    using sample_net sample_refresh_rows [of fresh_state] s m u by (simp only: c if_True) simp
qed

subsection \<open>Killing a process\<close>

lemma fallback_fst: "fst (fallback env pid e) = fallback_result env e"
  by (simp add: fallback_def fallback_result_def split: option.splits)

lemma fallback_snd:
  "snd (fallback env pid e) = [if prefix ''win'' (platform env) then Taskkill pid else OsKill pid]"
  by (simp add: fallback_def split: option.splits)

lemma try_kill_pid_Inr:
  "kill_body env pid = (Inr r, l) \<Longrightarrow> try_kill_pid env pid = (r, l)"
  by (simp add: try_kill_pid_def)

lemma try_kill_pid_not_found:
  "kill_body env pid = (Inl e, l) \<Longrightarrow>
   exc_cls e = NoSuchProcess \<or> exc_cls e = ProcessLookupError \<Longrightarrow>
     try_kill_pid env pid = ((False, ''process not found''), l)"
  by (auto simp: try_kill_pid_def)

lemma try_kill_pid_fallback:
  "kill_body env pid = (Inl e, l) \<Longrightarrow>
   exc_cls e \<noteq> NoSuchProcess \<Longrightarrow> exc_cls e \<noteq> ProcessLookupError \<Longrightarrow>
     try_kill_pid env pid =
       (fallback_result env e,
        l @ [if prefix ''win'' (platform env) then Taskkill pid else OsKill pid])"
  using fallback_fst [of env pid e] fallback_snd [of env pid e]
  by (cases "fallback env pid e") (simp add: try_kill_pid_def)

text \<open>
  C1, as the code has it: \<open>try_kill_pid\<close> returns \<open>(False, "process not found")\<close> when
  the process does not exist; otherwise it sends the graceful request and waits 3 seconds,
  returning \<open>(True, "terminated")\<close> if the process exits in time; on a timeout it sends the
  forceful kill and waits 3 seconds again, returning \<open>(True, "killed")\<close> if the process
  exits now. When the second wait times out too, the timeout is handled like any other
  error, by the fallback of the platform, and the result is the fallback's: on a platform
  other than Windows \<open>os.kill\<close> sends SIGTERM and the result is
  \<open>(True, "SIGTERM sent")\<close> if that call returns, a failure if it raises; on Windows
  \<open>taskkill\<close> runs and the result is \<open>(True, "taskkill")\<close> if it exits with zero, a
  failure otherwise.
\<close>

theorem terminate_state_machine:
  "(k_Process env = Some e \<and> (exc_cls e = NoSuchProcess \<or> exc_cls e = ProcessLookupError) \<longrightarrow>
      try_kill_pid env pid = ((False, ''process not found''), [ProcessHandle pid]))
   \<and> (k_Process env = None \<and> k_terminate env = None \<and> k_wait1 env = None \<longrightarrow>
      try_kill_pid env pid =
        ((True, ''terminated''), [ProcessHandle pid, Terminate pid, Wait pid 3]))
   \<and> (k_Process env = None \<and> k_terminate env = None
        \<and> k_wait1 env = Some e1 \<and> exc_cls e1 = TimeoutExpired
        \<and> k_kill env = None \<and> k_wait2 env = None \<longrightarrow>
      try_kill_pid env pid =
        ((True, ''killed''),
         [ProcessHandle pid, Terminate pid, Wait pid 3, Kill pid, Wait pid 3]))
   \<and> (k_Process env = None \<and> k_terminate env = None
        \<and> k_wait1 env = Some e1 \<and> exc_cls e1 = TimeoutExpired
        \<and> k_kill env = None \<and> k_wait2 env = Some e2 \<and> exc_cls e2 = TimeoutExpired \<longrightarrow>
      try_kill_pid env pid =
        (if prefix ''win'' (platform env) then
           (case k_taskkill env of
              None \<Rightarrow> (True, ''taskkill'')
            | Some e3 \<Rightarrow> (False, exc_str e2 @ ''; taskkill failed: '' @ exc_str e3))
         else
           (case k_oskill env of
              None \<Rightarrow> (True, ''SIGTERM sent'')
            | Some e3 \<Rightarrow>
                if exc_cls e3 = PermissionError
                then (False, ''permission denied: '' @ exc_str e3)
                else (False, exc_str e3)),
         [ProcessHandle pid, Terminate pid, Wait pid 3, Kill pid, Wait pid 3,
          if prefix ''win'' (platform env) then Taskkill pid else OsKill pid]))"
proof (intro conjI impI)
  assume "k_Process env = Some e \<and> (exc_cls e = NoSuchProcess \<or> exc_cls e = ProcessLookupError)"
  then show "try_kill_pid env pid = ((False, ''process not found''), [ProcessHandle pid])"
    by (intro try_kill_pid_not_found [of env pid e]) (simp_all add: kill_body_def)
next
  assume "k_Process env = None \<and> k_terminate env = None \<and> k_wait1 env = None"
  then show "try_kill_pid env pid =
        ((True, ''terminated''), [ProcessHandle pid, Terminate pid, Wait pid 3])"
    by (intro try_kill_pid_Inr) (simp add: kill_body_def)
next
  assume "k_Process env = None \<and> k_terminate env = None
        \<and> k_wait1 env = Some e1 \<and> exc_cls e1 = TimeoutExpired
        \<and> k_kill env = None \<and> k_wait2 env = None"
  then show "try_kill_pid env pid =
        ((True, ''killed''),
         [ProcessHandle pid, Terminate pid, Wait pid 3, Kill pid, Wait pid 3])"
    by (intro try_kill_pid_Inr) (simp add: kill_body_def)
next
  assume a: "k_Process env = None \<and> k_terminate env = None
        \<and> k_wait1 env = Some e1 \<and> exc_cls e1 = TimeoutExpired
        \<and> k_kill env = None \<and> k_wait2 env = Some e2 \<and> exc_cls e2 = TimeoutExpired"
  then have "kill_body env pid =
      (Inl e2, [ProcessHandle pid, Terminate pid, Wait pid 3, Kill pid, Wait pid 3])"
    by (simp add: kill_body_def)
  from try_kill_pid_fallback [OF this] a
  show "try_kill_pid env pid =
        (if prefix ''win'' (platform env) then
           (case k_taskkill env of
              None \<Rightarrow> (True, ''taskkill'')
            | Some e3 \<Rightarrow> (False, exc_str e2 @ ''; taskkill failed: '' @ exc_str e3))
         else
           (case k_oskill env of
              None \<Rightarrow> (True, ''SIGTERM sent'')
            | Some e3 \<Rightarrow>
                if exc_cls e3 = PermissionError
                then (False, ''permission denied: '' @ exc_str e3)
                else (False, exc_str e3)),
         [ProcessHandle pid, Terminate pid, Wait pid 3, Kill pid, Wait pid 3,
          if prefix ''win'' (platform env) then Taskkill pid else OsKill pid])"
    by (simp add: fallback_result_def)
qed

theorem terminate_state_machine_witness:
  "try_kill_pid (graceful_env\<lparr>k_Process := Some vanished\<rparr>) 4242 =
     ((False, ''process not found''), [ProcessHandle 4242])
   \<and> try_kill_pid graceful_env 4242 =
     ((True, ''terminated''), [ProcessHandle 4242, Terminate 4242, Wait 4242 3])
   \<and> try_kill_pid (graceful_env\<lparr>k_wait1 := Some timed_out\<rparr>) 4242 =
     ((True, ''killed''),
      [ProcessHandle 4242, Terminate 4242, Wait 4242 3, Kill 4242, Wait 4242 3])
   \<and> try_kill_pid (stubborn_env\<lparr>k_oskill := Some (Exc OtherException ''boom'')\<rparr>) 4242 =
     ((False, ''boom''),
      [ProcessHandle 4242, Terminate 4242, Wait 4242 3, Kill 4242, Wait 4242 3, OsKill 4242])"
  using
    terminate_state_machine
      [of "graceful_env\<lparr>k_Process := Some vanished\<rparr>" vanished 4242 timed_out timed_out]
    terminate_state_machine [of graceful_env vanished 4242 timed_out timed_out]
    terminate_state_machine
      [of "graceful_env\<lparr>k_wait1 := Some timed_out\<rparr>" vanished 4242 timed_out timed_out]
    terminate_state_machine
      [of "stubborn_env\<lparr>k_oskill := Some (Exc OtherException ''boom'')\<rparr>" vanished 4242
          timed_out timed_out]
  by (simp add: graceful_env_def stubborn_env_def vanished_def timed_out_def)

text \<open>
  C1 as stated fails. Both bounded waits time out, and the outcome is a success: the
  process 4242 is on Linux, \<open>terminate\<close> and \<open>kill\<close> return, both waits raise
  \<open>TimeoutExpired\<close>, the \<open>os.kill\<close> of the fallback returns, and \<open>try_kill_pid\<close>
  returns \<open>(True, "SIGTERM sent")\<close>.
\<close>

theorem timeout_twice_reports_success:
  "k_Process stubborn_env = None \<and> k_terminate stubborn_env = None
   \<and> map_option exc_cls (k_wait1 stubborn_env) = Some TimeoutExpired
   \<and> k_kill stubborn_env = None
   \<and> map_option exc_cls (k_wait2 stubborn_env) = Some TimeoutExpired
   \<and> try_kill_pid stubborn_env 4242 =
       ((True, ''SIGTERM sent''),
        [ProcessHandle 4242, Terminate 4242, Wait 4242 3, Kill 4242, Wait 4242 3, OsKill 4242])"
  by (simp add: stubborn_env_def graceful_env_def timed_out_def try_kill_pid_def
      kill_body_def fallback_def)




end
